theory Spec2Isabelle
  imports Main "HOL-Library.Word"
begin

unbundle bit_operations_syntax

section \<open>The GitHub client of package gh (src/gh/github.go)\<close>

text \<open>
  The package wraps the go-github client. Every method logs through \<open>gh.Logger\<close>, calls one
  or more endpoints of \<open>gh.Client\<close> and maps the answer to a Go result \<open>(value, error)\<close>.
  The go-github client is a collaborator outside the package: it is a parameter of the
  model (a record with one answer function per endpoint). Go pointers are options
  (\<open>None\<close> is \<open>nil\<close>), and reading a field through a nil pointer is the run-time panic
  \<open>Panic\<close>. What a method does is recorded in a trace of events: the log records it
  emits and the calls it makes, in order. The methods modelled are GetRepository,
  CreateRepository, CreateBranch, CreateOrUpdateFile, GetRepositoryContent and
  CreateOrUpdateRepositorySecret; ReplaceTopics, CreatePullRequest and
  CreateRepositoryRuleset have the shape of CreateOrUpdateFile (one request, its error
  logged and returned) and are left out.
\<close>

subsection \<open>Data\<close>

type_synonym byte = "8 word"

text \<open>A Go \<open>error\<close> value: one made by the collaborator, one built by \<open>fmt.Errorf\<close>
  from a format string and its arguments, or one of the two errors that the spec names
  for the sealing of a secret (section 4.1).\<close>

datatype go_error =
    Error string
  | Errorf string "go_error list"
  | InvalidKeyError
  | EncryptionError

text \<open>\<open>github.Response\<close>: only the status code is read.\<close>

record response =
  StatusCode :: int

text \<open>\<open>github.Repository\<close>, with the fields this package reads or writes. Every field is a
  pointer in Go.\<close>

record repository =
  Name :: "string option"
  Private :: "bool option"
  HasIssues :: "bool option"
  HasProjects :: "bool option"
  HasWiki :: "bool option"
  AutoInit :: "bool option"
  HasDiscussions :: "bool option"
  DeleteBranchOnMerge :: "bool option"
  UseSquashPRTitleAsDefault :: "bool option"
  AllowForking :: "bool option"
  DefaultBranch :: "string option"

text \<open>\<open>github.GitObject\<close> and \<open>github.Reference\<close>.\<close>

record git_object =
  SHA :: "string option"

record reference =
  Ref :: "string option"
  Object :: "git_object option"

text \<open>\<open>github.RepositoryContentFileOptions\<close>: the body of a file write.\<close>

record file_options =
  fo_Message :: "string option"
  fo_Content :: "byte list"
  fo_SHA :: "string option"
  fo_Branch :: "string option"

text \<open>\<open>github.RepositoryContent\<close> and \<open>github.RepositoryContentResponse\<close>: the package
  hands them through unread.\<close>

record repository_content =
  rc_Type :: "string option"
  rc_Path :: "string option"
  rc_SHA :: "string option"
  rc_Content :: "string option"

record repository_content_response =
  rcr_Content :: "repository_content option"
  rcr_CommitSHA :: "string option"

text \<open>\<open>github.PublicKey\<close> (both fields are pointers) and \<open>github.EncryptedSecret\<close>
  (both fields are plain strings).\<close>

record public_key =
  KeyID :: "string option"
  Key :: "string option"

record encrypted_secret =
  es_Name :: string
  es_KeyID :: string
  es_EncryptedValue :: string

text \<open>The endpoints of \<open>gh.Client\<close> that the modelled methods call. Each takes the
  arguments of the Go call (the context apart) and gives the Go result tuple.\<close>

record client =
  Repositories_Get ::
    "string \<Rightarrow> string \<Rightarrow> repository option \<times> response option \<times> go_error option"
  Repositories_Create ::
    "string \<Rightarrow> repository \<Rightarrow> repository option \<times> response option \<times> go_error option"
  Git_GetRef ::
    "string \<Rightarrow> string \<Rightarrow> string \<Rightarrow> reference option \<times> response option \<times> go_error option"
  Git_CreateRef ::
    "string \<Rightarrow> string \<Rightarrow> reference \<Rightarrow> reference option \<times> response option \<times> go_error option"
  Repositories_CreateFile ::
    "string \<Rightarrow> string \<Rightarrow> string \<Rightarrow> file_options \<Rightarrow>
       repository_content_response option \<times> response option \<times> go_error option"
  Repositories_GetContents ::
    "string \<Rightarrow> string \<Rightarrow> string \<Rightarrow> string \<Rightarrow>
       repository_content option \<times> repository_content list \<times> response option \<times> go_error option"
  Actions_GetRepoPublicKey ::
    "string \<Rightarrow> string \<Rightarrow> public_key option \<times> response option \<times> go_error option"
  Actions_CreateOrUpdateRepoSecret ::
    "string \<Rightarrow> string \<Rightarrow> encrypted_secret \<Rightarrow> response option \<times> go_error option"

text \<open>What a method does, in order: a record handed to \<open>gh.Logger.Debug\<close> (the message and
  its \<open>slog.String\<close> attributes; the attribute that \<open>New\<close> attaches to every record of
  the logger is the same for all and left out), a request to an endpoint with its
  arguments, or a call of the package's own \<open>encryptSecret\<close> with the key and the value it
  is given.\<close>

datatype event =
    Log string "(string \<times> string) list"
  | Get_Repository string string
  | Create_Repository string repository
  | Get_Ref string string string
  | Create_Ref string string reference
  | Create_File string string string file_options
  | Get_Contents string string string string
  | Get_RepoPublicKey string string
  | Seal string string
  | Put_RepoSecret string string encrypted_secret

subsection \<open>Running a method: a trace, and a value unless it panics\<close>

datatype 'a exec = Panic | Value 'a

type_synonym 'a run = "'a exec \<times> event list"

definition ret :: "'a \<Rightarrow> 'a run" where
  "ret x = (Value x, [])"

definition emit :: "event \<Rightarrow> unit run" where
  "emit e = (Value (), [e])"

text \<open>A call: the request is recorded, the collaborator's answer is the value.\<close>

definition call :: "event \<Rightarrow> 'a \<Rightarrow> 'a run" where
  "call e answer = (Value answer, [e])"

text \<open>Reading through a pointer: a nil pointer panics.\<close>

definition deref :: "'a option \<Rightarrow> 'a run" where
  "deref p = (case p of None \<Rightarrow> (Panic, []) | Some x \<Rightarrow> (Value x, []))"

text \<open>Sequencing: a panic stops the method; the traces are joined.\<close>

definition bind :: "'a run \<Rightarrow> ('a \<Rightarrow> 'b run) \<Rightarrow> 'b run" where
  "bind m f =
     (case m of
        (Panic, t) \<Rightarrow> (Panic, t)
      | (Value x, t) \<Rightarrow> (case f x of (r, t') \<Rightarrow> (r, t @ t')))"

definition when_do :: "bool \<Rightarrow> unit run \<Rightarrow> unit run" where
  "when_do b m = (if b then m else ret ())"

subsection \<open>The methods\<close>

text \<open>GetRepository (lines 21-33). The status code is read before the error is looked at.\<close>

definition GetRepository ::
  "client \<Rightarrow> string \<Rightarrow> string \<Rightarrow> (repository option \<times> go_error option) run" where
  "GetRepository c owner name =
     bind (emit (Log ''get repository'' [(''owner'', owner), (''repo name'', name)])) (\<lambda>_.
     bind (call (Get_Repository owner name) (Repositories_Get c owner name)) (\<lambda>(repo, res, err).
     bind (deref res) (\<lambda>r.
     bind (when_do (StatusCode r = 404)
            (emit (Log ''repository not found'' [(''owner'', owner), (''repo name'', name)]))) (\<lambda>_.
     case err of
       Some e \<Rightarrow> ret (None, Some (Errorf (''error getting repository '' @ owner @ ''/'' @ name) [e]))
     | None \<Rightarrow> ret (repo, None)))))"

text \<open>The request body that CreateRepository builds (lines 47-58).\<close>

definition new_repository :: "string \<Rightarrow> repository" where
  "new_repository name =
     \<lparr> Name = Some name, Private = Some False, HasIssues = Some True,
       HasProjects = Some False, HasWiki = Some False, AutoInit = Some True,
       HasDiscussions = Some True, DeleteBranchOnMerge = Some True,
       UseSquashPRTitleAsDefault = Some True, AllowForking = Some True,
       DefaultBranch = None \<rparr>"

text \<open>CreateRepository (lines 45-70).\<close>

definition CreateRepository ::
  "client \<Rightarrow> string \<Rightarrow> string \<Rightarrow> (repository option \<times> go_error option) run" where
  "CreateRepository c organization name =
     bind (emit (Log ''creating repository''
                   [(''organization'', organization), (''name'', name)])) (\<lambda>_.
     bind (call (Create_Repository '''' (new_repository name))
                (Repositories_Create c '''' (new_repository name))) (\<lambda>(repo, res, err).
     bind (deref res) (\<lambda>r.
     bind (when_do (StatusCode r = 422)
            (emit (Log ''validation failed''
                     [(''organization'', organization), (''name'', name)]))) (\<lambda>_.
     case err of
       Some e \<Rightarrow>
         bind (emit (Log ''error creating repository''
                       [(''organization'', organization), (''name'', name)])) (\<lambda>_.
         ret (None, Some e))
     | None \<Rightarrow> ret (repo, None)))))"

text \<open>CreateBranch (lines 75-103). \<open>*repo.DefaultBranch\<close> reads through two pointers, and
  \<open>ref.Object.SHA\<close> through two more; the SHA itself is copied as a pointer.\<close>

definition CreateBranch ::
  "client \<Rightarrow> string \<Rightarrow> string \<Rightarrow> string \<Rightarrow> (reference option \<times> go_error option) run" where
  "CreateBranch c owner repoName branchName =
     bind (emit (Log ''creating branch''
                   [(''owner'', owner), (''repo name'', repoName),
                    (''branch name'', branchName)])) (\<lambda>_.
     bind (GetRepository c owner repoName) (\<lambda>(repo, err).
     case err of
       Some e \<Rightarrow>
         bind (emit (Log ''error getting repository''
                       [(''owner'', owner), (''repo name'', repoName)])) (\<lambda>_.
         ret (None, Some e))
     | None \<Rightarrow>
         bind (deref repo) (\<lambda>rp.
         bind (deref (DefaultBranch rp)) (\<lambda>defaultBranch.
         bind (emit (Log ''getting latest reference from default branch''
                       [(''owner'', owner), (''repo name'', repoName),
                        (''default branch name'', defaultBranch)])) (\<lambda>_.
         bind (call (Get_Ref owner repoName (''refs/heads/'' @ defaultBranch))
                    (Git_GetRef c owner repoName (''refs/heads/'' @ defaultBranch)))
              (\<lambda>(ref, _, err).
         case err of
           Some e \<Rightarrow>
             bind (emit (Log ''error getting latest reference from default branch''
                           [(''owner'', owner), (''repo name'', repoName),
                            (''default branch name'', defaultBranch)])) (\<lambda>_.
             ret (None, Some e))
         | None \<Rightarrow>
             bind (deref ref) (\<lambda>rf.
             bind (deref (Object rf)) (\<lambda>obj.
             bind (call (Create_Ref owner repoName
                           \<lparr> Ref = Some (''refs/heads/'' @ branchName),
                             Object = Some \<lparr> SHA = SHA obj \<rparr> \<rparr>)
                        (Git_CreateRef c owner repoName
                           \<lparr> Ref = Some (''refs/heads/'' @ branchName),
                             Object = Some \<lparr> SHA = SHA obj \<rparr> \<rparr>))
                  (\<lambda>(branch, _, err).
             case err of
               Some e \<Rightarrow>
                 bind (emit (Log ''error creating new branch''
                               [(''owner'', owner), (''repo name'', repoName),
                                (''new branch name'', branchName)])) (\<lambda>_.
                 ret (None, Some e))
             | None \<Rightarrow> ret (branch, None))))))))))"

text \<open>CreateOrUpdateFile (lines 109-124). \<open>github.Ptr\<close> makes a pointer to its argument,
  so each pointer field of the options is set, the SHA too.\<close>

definition CreateOrUpdateFile ::
  "client \<Rightarrow> string \<Rightarrow> string \<Rightarrow> string \<Rightarrow> string \<Rightarrow> string \<Rightarrow> string \<Rightarrow> byte list \<Rightarrow>
     (repository_content_response option \<times> go_error option) run" where
  "CreateOrUpdateFile c owner repoName branch commitMessage filePath replacingFileSHA fileContent =
     bind (emit (Log ''creating file''
                   [(''repo name'', repoName), (''branch name'', branch),
                    (''file path'', filePath)])) (\<lambda>_.
     bind (call (Create_File owner repoName filePath
                   \<lparr> fo_Message = Some commitMessage, fo_Content = fileContent,
                     fo_SHA = Some replacingFileSHA, fo_Branch = Some branch \<rparr>)
                (Repositories_CreateFile c owner repoName filePath
                   \<lparr> fo_Message = Some commitMessage, fo_Content = fileContent,
                     fo_SHA = Some replacingFileSHA, fo_Branch = Some branch \<rparr>))
          (\<lambda>(content, _, err).
     case err of
       Some e \<Rightarrow>
         bind (emit (Log ''error creating file''
                       [(''repo name'', repoName), (''branch name'', branch),
                        (''file path'', filePath)])) (\<lambda>_.
         ret (None, Some e))
     | None \<Rightarrow> ret (content, None)))"

text \<open>GetRepositoryContent (lines 130-146). The Go result has three parts: the file, the
  directory listing (a nil slice is the empty list) and the error.\<close>

definition GetRepositoryContent ::
  "client \<Rightarrow> string \<Rightarrow> string \<Rightarrow> string \<Rightarrow> string \<Rightarrow>
     (repository_content option \<times> repository_content list \<times> go_error option) run" where
  "GetRepositoryContent c owner repoName path ref =
     bind (emit (Log ''getting repository content''
                   [(''repo name'', repoName), (''ref'', ref), (''path'', path)])) (\<lambda>_.
     bind (call (Get_Contents owner repoName path ref)
                (Repositories_GetContents c owner repoName path ref))
          (\<lambda>(fileContents, dirContents, res, err).
     bind (deref res) (\<lambda>r.
     bind (when_do (StatusCode r = 404)
            (emit (Log ''file/path not found''
                     [(''repo name'', repoName), (''ref'', ref), (''path'', path)]))) (\<lambda>_.
     case err of
       Some e \<Rightarrow>
         if StatusCode r \<noteq> 404 then
           bind (emit (Log ''error getting repository content''
                         [(''repo name'', repoName), (''ref'', ref), (''path'', path)])) (\<lambda>_.
           ret (None, [], Some e))
         else ret (fileContents, dirContents, None)
     | None \<Rightarrow> ret (fileContents, dirContents, None)))))"

text \<open>CreateOrUpdateRepositorySecret (lines 164-189). The package's \<open>encryptSecret\<close> is
  defined outside this file: it is the parameter \<open>encryptSecret\<close>, a function of the key
  and the value to the Go result \<open>(string, error)\<close>. After a failed key fetch the method
  logs and goes on (there is no return at line 169). \<open>*key.Key\<close> is read before the call
  of line 171, \<open>*key.KeyID\<close> before the call of line 177. The method has one result, the
  error.\<close>

definition CreateOrUpdateRepositorySecret ::
  "client \<Rightarrow> (string \<Rightarrow> string \<Rightarrow> string \<times> go_error option) \<Rightarrow>
     string \<Rightarrow> string \<Rightarrow> string \<Rightarrow> string \<Rightarrow> go_error option run" where
  "CreateOrUpdateRepositorySecret c encryptSecret owner repoName secretName secretValue =
     bind (emit (Log ''creating or updating repository secret''
                   [(''repo name'', repoName), (''secret name'', secretName)])) (\<lambda>_.
     bind (call (Get_RepoPublicKey owner repoName)
                (Actions_GetRepoPublicKey c owner repoName)) (\<lambda>(key, _, err).
     bind (when_do (err \<noteq> None)
            (emit (Log ''error getting repository public key''
                     [(''repo name'', repoName)]))) (\<lambda>_.
     bind (deref key) (\<lambda>k.
     bind (deref (Key k)) (\<lambda>keyString.
     bind (call (Seal keyString secretValue) (encryptSecret keyString secretValue))
          (\<lambda>(encryptedSecret, err).
     case err of
       Some e \<Rightarrow>
         bind (emit (Log ''error encrypting secret''
                       [(''repo name'', repoName), (''secret name'', secretName)])) (\<lambda>_.
         ret (Some e))
     | None \<Rightarrow>
         bind (deref (KeyID k)) (\<lambda>keyID.
         bind (call (Put_RepoSecret owner repoName
                       \<lparr> es_Name = secretName, es_KeyID = keyID,
                         es_EncryptedValue = encryptedSecret \<rparr>)
                    (Actions_CreateOrUpdateRepoSecret c owner repoName
                       \<lparr> es_Name = secretName, es_KeyID = keyID,
                         es_EncryptedValue = encryptedSecret \<rparr>)) (\<lambda>(_, err).
         case err of
           Some e \<Rightarrow>
             bind (emit (Log ''error creating or updating repo secret''
                           [(''repo name'', repoName), (''secret name'', secretName)])) (\<lambda>_.
             ret (Some e))
         | None \<Rightarrow> ret None))))))))"

subsection \<open>Reading a trace\<close>

fun is_log :: "event \<Rightarrow> bool" where
  "is_log (Log _ _) = True"
| "is_log _ = False"

text \<open>The log records of a trace, and the rest: the requests and the sealing calls.\<close>

definition log_records :: "event list \<Rightarrow> event list" where
  "log_records t = filter is_log t"

definition requests :: "event list \<Rightarrow> event list" where
  "requests t = filter (\<lambda>e. \<not> is_log e) t"

text \<open>The prior-content identifiers carried by the file writes of a trace.\<close>

fun carried_SHA :: "event list \<Rightarrow> string option list" where
  "carried_SHA [] = []"
| "carried_SHA (Create_File _ _ _ opts # t) = fo_SHA opts # carried_SHA t"
| "carried_SHA (_ # t) = carried_SHA t"

text \<open>The log sequences of CreateOrUpdateRepositorySecret: the opening record, then the
  record of the key fetch when that failed, then the record of the sealing or of the
  submission when that failed. None mentions the secret's value.\<close>

definition secret_logs :: "string \<Rightarrow> string \<Rightarrow> event list list" where
  "secret_logs repoName secretName =
     (let opening = Log ''creating or updating repository secret''
                      [(''repo name'', repoName), (''secret name'', secretName)];
          fetch = Log ''error getting repository public key'' [(''repo name'', repoName)];
          sealing = Log ''error encrypting secret''
                      [(''repo name'', repoName), (''secret name'', secretName)];
          submission = Log ''error creating or updating repo secret''
                      [(''repo name'', repoName), (''secret name'', secretName)]
      in [[opening], [opening, sealing], [opening, submission],
          [opening, fetch], [opening, fetch, sealing], [opening, fetch, submission]])"

subsection \<open>Stubbed collaborators\<close>

text \<open>A platform that answers every request and accepts every write.\<close>

definition octo :: client where
  "octo =
     \<lparr> Repositories_Get = (\<lambda>owner name.
         (Some ((new_repository name)\<lparr>DefaultBranch := Some ''main''\<rparr>),
          Some \<lparr>StatusCode = 200\<rparr>, None)),
       Repositories_Create = (\<lambda>org r.
         (Some (r\<lparr>DefaultBranch := Some ''main''\<rparr>), Some \<lparr>StatusCode = 201\<rparr>, None)),
       Git_GetRef = (\<lambda>owner name ref.
         (Some \<lparr>Ref = Some ref, Object = Some \<lparr>SHA = Some ''7fd1a60b01f9''\<rparr>\<rparr>,
          Some \<lparr>StatusCode = 200\<rparr>, None)),
       Git_CreateRef = (\<lambda>owner name ref. (Some ref, Some \<lparr>StatusCode = 201\<rparr>, None)),
       Repositories_CreateFile = (\<lambda>owner name path opts.
         (Some \<lparr>rcr_Content = Some \<lparr>rc_Type = Some ''file'', rc_Path = Some path,
                                     rc_SHA = Some ''95b966ae1c16'', rc_Content = None\<rparr>,
                rcr_CommitSHA = Some ''7638417db6d5''\<rparr>,
          Some \<lparr>StatusCode = 201\<rparr>, None)),
       Repositories_GetContents = (\<lambda>owner name path ref.
         (Some \<lparr>rc_Type = Some ''file'', rc_Path = Some path,
                rc_SHA = Some ''95b966ae1c16'', rc_Content = Some ''aGVsbG8=''\<rparr>,
          [], Some \<lparr>StatusCode = 200\<rparr>, None)),
       Actions_GetRepoPublicKey = (\<lambda>owner name.
         (Some \<lparr>KeyID = Some ''568250167242549743'',
                Key = Some ''AAECAwQFBgcICQoLDA0ODxAREhMUFRYXGBkaGxwdHh8=''\<rparr>,
          Some \<lparr>StatusCode = 200\<rparr>, None)),
       Actions_CreateOrUpdateRepoSecret = (\<lambda>owner name secret.
         (Some \<lparr>StatusCode = 201\<rparr>, None)) \<rparr>"

text \<open>No network: every request fails in the transport, so there is no value and no
  response object, only the error.\<close>

definition offline :: client where
  "offline =
     \<lparr> Repositories_Get = (\<lambda>owner name. (None, None, Some (Error ''no route to host''))),
       Repositories_Create = (\<lambda>org r. (None, None, Some (Error ''no route to host''))),
       Git_GetRef = (\<lambda>owner name ref. (None, None, Some (Error ''no route to host''))),
       Git_CreateRef = (\<lambda>owner name ref. (None, None, Some (Error ''no route to host''))),
       Repositories_CreateFile = (\<lambda>owner name path opts.
         (None, None, Some (Error ''no route to host''))),
       Repositories_GetContents = (\<lambda>owner name path ref.
         (None, [], None, Some (Error ''no route to host''))),
       Actions_GetRepoPublicKey = (\<lambda>owner name.
         (None, None, Some (Error ''no route to host''))),
       Actions_CreateOrUpdateRepoSecret = (\<lambda>owner name secret.
         (None, Some (Error ''no route to host''))) \<rparr>"

text \<open>The platform answers the two reads with a status: 404 in \<open>absent\<close>, 500 in
  \<open>broken\<close>. go-github gives no value and an error for each.\<close>

definition answering :: "int \<Rightarrow> string \<Rightarrow> client" where
  "answering status msg =
     octo\<lparr> Repositories_Get := (\<lambda>owner name.
             (None, Some \<lparr>StatusCode = status\<rparr>, Some (Error msg))),
           Repositories_GetContents := (\<lambda>owner name path ref.
             (None, [], Some \<lparr>StatusCode = status\<rparr>, Some (Error msg))) \<rparr>"

definition absent :: client where
  "absent = answering 404 ''404 Not Found''"

definition broken :: client where
  "broken = answering 500 ''500 Internal Server Error''"

text \<open>The platform refuses the key fetch (the token may not read the repository's
  secrets): no key, a response, an error.\<close>

definition keyless :: client where
  "keyless =
     octo\<lparr> Actions_GetRepoPublicKey := (\<lambda>owner name.
             (None, Some \<lparr>StatusCode = 403\<rparr>, Some (Error ''403 Forbidden''))) \<rparr>"

text \<open>A sealing that always succeeds, for running the secret flow on a stub.\<close>

definition sealed_as :: "string \<Rightarrow> string \<Rightarrow> string \<Rightarrow> string \<times> go_error option" where
  "sealed_as out key val = (out, None)"

section \<open>The Secret Sealing Engine\<close>

text \<open>
  The method \<open>encryptSecret\<close> that line 171 calls is defined in a file of the package that
  is not among the sources. This section models it from section 4.1 of the spec: the key
  is decoded from base64 and its size is checked, the sealed-box primitive of the
  cryptography library is invoked, and the ciphertext is encoded as base64. The
  cryptography itself (key generation, key agreement, the cipher and the authenticator)
  and the random bytes that a call draws are parameters.
\<close>

subsection \<open>Base64\<close>

text \<open>Modelled from the spec: the base64 coding of the key and of the ciphertext ("base64-encoded
  at the API boundary and decoded before use", "re-encoded as base64 for transport"), as
  RFC 4648 defines it: the standard alphabet, with padding.\<close>

definition alphabet :: string where
  "alphabet = ''ABCDEFGHIJKLMNOPQRSTUVWXYZabcdefghijklmnopqrstuvwxyz0123456789+/''"

definition b64char :: "nat \<Rightarrow> char" where
  "b64char n = alphabet ! n"

fun index_of :: "'a \<Rightarrow> 'a list \<Rightarrow> nat option" where
  "index_of x [] = None"
| "index_of x (y # ys) = (if x = y then Some 0 else map_option Suc (index_of x ys))"

definition b64val :: "char \<Rightarrow> nat option" where
  "b64val ch = index_of ch alphabet"

text \<open>Modelled from the spec: base64 encoding. Three bytes give four characters; a last
  group of one or two bytes is padded with \<open>=\<close>.\<close>

fun b64encode :: "byte list \<Rightarrow> string" where
  "b64encode (a # b # c # rest) =
     [b64char (unat a div 4), b64char (unat a mod 4 * 16 + unat b div 16),
      b64char (unat b mod 16 * 4 + unat c div 64), b64char (unat c mod 64)] @ b64encode rest"
| "b64encode [a, b] =
     [b64char (unat a div 4), b64char (unat a mod 4 * 16 + unat b div 16),
      b64char (unat b mod 16 * 4), CHR ''='']"
| "b64encode [a] = [b64char (unat a div 4), b64char (unat a mod 4 * 16), CHR ''='', CHR ''='']"
| "b64encode [] = []"

text \<open>Modelled from the spec: base64 decoding of a group of four characters with no
  padding, and of the last group, which may end in one or two \<open>=\<close>. A character outside
  the alphabet makes the decoding fail.\<close>

definition quantum :: "char \<Rightarrow> char \<Rightarrow> char \<Rightarrow> char \<Rightarrow> byte list option" where
  "quantum w x y z =
     (case (b64val w, b64val x, b64val y, b64val z) of
        (Some p, Some q, Some r, Some s) \<Rightarrow>
          Some [of_nat (p * 4 + q div 16), of_nat (q mod 16 * 16 + r div 4),
                of_nat (r mod 4 * 64 + s)]
      | _ \<Rightarrow> None)"

definition final_quantum :: "char \<Rightarrow> char \<Rightarrow> char \<Rightarrow> char \<Rightarrow> byte list option" where
  "final_quantum w x y z =
     (if z = CHR ''='' then
        (if y = CHR ''='' then
           (case (b64val w, b64val x) of
              (Some p, Some q) \<Rightarrow> Some [of_nat (p * 4 + q div 16)]
            | _ \<Rightarrow> None)
         else
           (case (b64val w, b64val x, b64val y) of
              (Some p, Some q, Some r) \<Rightarrow>
                Some [of_nat (p * 4 + q div 16), of_nat (q mod 16 * 16 + r div 4)]
            | _ \<Rightarrow> None))
      else quantum w x y z)"

text \<open>Modelled from the spec: base64 decoding. The text is a sequence of groups of four
  characters; any other length fails.\<close>

fun b64decode :: "string \<Rightarrow> byte list option" where
  "b64decode [] = Some []"
| "b64decode (w # x # y # z # rest) =
     (if rest = [] then final_quantum w x y z
      else (case quantum w x y z of
              None \<Rightarrow> None
            | Some bs \<Rightarrow> map_option ((@) bs) (b64decode rest)))"
| "b64decode _ = None"

subsection \<open>The sealed box\<close>

text \<open>Modelled from the spec: the two fixed sizes of the scheme, in bytes: the public key
  (the recipient's and the ephemeral one alike) and the authentication tag. The spec
  calls them fixed and gives no number; these are the sizes of the sealed box that the
  platform's secrets use (a Curve25519 key, a Poly1305 tag).\<close>

definition publicKeyBytes :: nat where
  "publicKeyBytes = 32"

definition tagBytes :: nat where
  "tagBytes = 16"

text \<open>Modelled from the spec: a value of fixed size as its bytes, the low byte first, and
  back.\<close>

definition le_bytes :: "nat \<Rightarrow> 'a::len word \<Rightarrow> byte list" where
  "le_bytes n w = map (\<lambda>i. ucast (drop_bit (8 * i) w)) [0..<n]"

definition of_le_bytes :: "byte list \<Rightarrow> 'a::len word" where
  "of_le_bytes bs = foldr (\<lambda>b w. ucast b OR push_bit 8 w) bs 0"

text \<open>Modelled from the spec: the parts of the "vetted cryptography library" (section 9)
  that the sealed box is made of. \<open>keypair\<close> makes a keypair (public, private) from the
  random bytes of a call; \<open>shared_key\<close> derives the message key "from the ephemeral private
  key and the recipient's public key", or reports an internal error (\<open>None\<close>);
  \<open>keystream\<close> is the cipher's key stream, byte by byte; \<open>tag\<close> authenticates the
  encrypted body.\<close>

record scheme =
  keypair :: "byte list \<Rightarrow> 256 word \<times> 256 word"
  shared_key :: "256 word \<Rightarrow> 256 word \<Rightarrow> 256 word option"
  keystream :: "256 word \<Rightarrow> nat \<Rightarrow> byte"
  tag :: "256 word \<Rightarrow> byte list \<Rightarrow> 128 word"

text \<open>Modelled from the spec: the encrypted body, as long as the plaintext.\<close>

definition xor_keystream :: "scheme \<Rightarrow> 256 word \<Rightarrow> byte list \<Rightarrow> byte list" where
  "xor_keystream s k plaintext = map (\<lambda>(i, b). b XOR keystream s k i) (enumerate 0 plaintext)"

text \<open>Modelled from the spec: the sealing primitive. "The sender generates an ephemeral
  keypair per message, encrypts using a key derived from the ephemeral private key and
  the recipient's public key, prepends the ephemeral public key, and discards the
  ephemeral private key": the result is the ephemeral public key, the authentication tag
  and the encrypted body. \<open>seed\<close> is what this call reads from the random source.\<close>

definition seal_anonymous ::
  "scheme \<Rightarrow> byte list \<Rightarrow> byte list \<Rightarrow> byte list \<Rightarrow> byte list option" where
  "seal_anonymous s seed recipient plaintext =
     (case keypair s seed of
        (ephemeralPublic, ephemeralPrivate) \<Rightarrow>
          (case shared_key s ephemeralPrivate (of_le_bytes recipient) of
             None \<Rightarrow> None
           | Some k \<Rightarrow>
               let body = xor_keystream s k plaintext
               in Some (le_bytes publicKeyBytes ephemeralPublic
                        @ le_bytes tagBytes (tag s k body) @ body)))"

subsection \<open>The engine\<close>

text \<open>Modelled from the spec: the bytes of a Go string.\<close>

definition bytes_of :: "string \<Rightarrow> byte list" where
  "bytes_of str = map (\<lambda>ch. of_nat (of_char ch)) str"

text \<open>An invocation of the sealing primitive, with the key bytes and the plaintext it is
  handed.\<close>

datatype sealing_call = Box_SealAnonymous "byte list" "byte list"

text \<open>Modelled from the spec: the engine up to the ciphertext, before it is encoded for
  transport, with the invocations of the primitive it made. It "fails with
  InvalidKeyError if the recipient key does not decode to the expected fixed size" and
  "with EncryptionError if the underlying sealing primitive reports an internal
  error".\<close>

definition sealed_secret ::
  "scheme \<Rightarrow> byte list \<Rightarrow> string \<Rightarrow> string \<Rightarrow> (go_error + byte list) \<times> sealing_call list" where
  "sealed_secret s seed publicKey secretValue =
     (case b64decode publicKey of
        None \<Rightarrow> (Inl InvalidKeyError, [])
      | Some recipient \<Rightarrow>
          if length recipient \<noteq> publicKeyBytes then (Inl InvalidKeyError, [])
          else
            (case seal_anonymous s seed recipient (bytes_of secretValue) of
               None \<Rightarrow> (Inl EncryptionError, [Box_SealAnonymous recipient (bytes_of secretValue)])
             | Some ciphertext \<Rightarrow>
                 (Inr ciphertext, [Box_SealAnonymous recipient (bytes_of secretValue)])))"

text \<open>Modelled from the spec: encryptSecret, the engine as line 171 calls it: the Go result
  \<open>(string, error)\<close> is the ciphertext "re-encoded as base64 for transport" and no error,
  or the empty string and the error.\<close>

definition encryptSecret ::
  "scheme \<Rightarrow> byte list \<Rightarrow> string \<Rightarrow> string \<Rightarrow> (string \<times> go_error option) \<times> sealing_call list" where
  "encryptSecret s seed publicKey secretValue =
     (case sealed_secret s seed publicKey secretValue of
        (Inl e, calls) \<Rightarrow> (('''', Some e), calls)
      | (Inr ciphertext, calls) \<Rightarrow> ((b64encode ciphertext, None), calls))"

subsection \<open>A scheme and a key to run the engine on\<close>

text \<open>A scheme with no security at all, whose parts are cheap to evaluate: the public key
  is the private key plus nine, the message key is the exclusive or of the two keys, and
  the all-zero recipient key is an internal error.\<close>

definition toy :: scheme where
  "toy = \<lparr> keypair = (\<lambda>seed. (of_le_bytes seed + 9, of_le_bytes seed)),
           shared_key = (\<lambda>priv pub. if pub = 0 then None else Some (priv XOR pub)),
           keystream = (\<lambda>k i. ucast (drop_bit (8 * (i mod 32)) k)),
           tag = (\<lambda>k body. ucast k + of_nat (length body)) \<rparr>"

text \<open>The base64 text of the 32 bytes 0, 1, ..., 31 (the key of the stub \<open>octo\<close>).\<close>

definition test_key :: string where
  "test_key = ''AAECAwQFBgcICQoLDA0ODxAREhMUFRYXGBkaGxwdHh8=''"

definition test_key_bytes :: "byte list" where
  "test_key_bytes = [0, 1, 2, 3, 4, 5, 6, 7, 8, 9, 10, 11, 12, 13, 14, 15, 16, 17, 18, 19, 20,
                     21, 22, 23, 24, 25, 26, 27, 28, 29, 30, 31]"

section \<open>Properties\<close>

lemmas run_defs = ret_def emit_def call_def deref_def bind_def when_do_def

subsection \<open>Status codes are read through the response pointer\<close>

text \<open>
  C8. The claim: when the transport fails and no response object is produced,
  GetRepository, CreateRepository and GetRepositoryContent return a transport error
  rather than read the status code of the absent response. The code reads
  \<open>res.StatusCode\<close> first in all three (lines 24, 60, 136): with no response each of
  them panics, right after the request, and returns nothing.
\<close>

theorem status_read_without_response:
  "(Repositories_Get c owner name = (repo, None, err) \<longrightarrow>
      GetRepository c owner name =
        (Panic, [Log ''get repository'' [(''owner'', owner), (''repo name'', name)],
                 Get_Repository owner name]))
   \<and> (Repositories_Create c '''' (new_repository name) = (repo, None, err) \<longrightarrow>
      CreateRepository c organization name =
        (Panic, [Log ''creating repository''
                   [(''organization'', organization), (''name'', name)],
                 Create_Repository '''' (new_repository name)]))
   \<and> (Repositories_GetContents c owner name path ref = (fileContents, dirContents, None, err) \<longrightarrow>
      GetRepositoryContent c owner name path ref =
        (Panic, [Log ''getting repository content''
                   [(''repo name'', name), (''ref'', ref), (''path'', path)],
                 Get_Contents owner name path ref]))"
  by (simp add: GetRepository_def CreateRepository_def GetRepositoryContent_def run_defs)

theorem status_read_without_response_offline:
  "fst (GetRepository offline ''octo'' ''demo'') = Panic
   \<and> fst (CreateRepository offline ''octo-org'' ''demo'') = Panic
   \<and> fst (GetRepositoryContent offline ''octo'' ''demo'' ''README.md'' ''main'') = Panic"
  using status_read_without_response
          [of offline "''octo''" "''demo''" None "Some (Error ''no route to host'')"
              "''octo-org''" "''README.md''" "''main''" None "[]"]
  by (simp add: offline_def)

subsection \<open>Not found\<close>

text \<open>
  C5, as the claim states it: a 404 answer to GetRepository gives the not-found outcome
  and no error. It does not: on the stub \<open>absent\<close>, whose answer to the lookup is a 404,
  GetRepository logs "repository not found" and then returns an error (line 28 tests
  \<open>err\<close> alone, and go-github gives an error for every status outside 2xx).
\<close>

theorem GetRepository_absent_is_error:
  "GetRepository absent ''octo'' ''demo'' =
     (Value (None, Some (Errorf ''error getting repository octo/demo''
                           [Error ''404 Not Found''])),
      [Log ''get repository'' [(''owner'', ''octo''), (''repo name'', ''demo'')],
       Get_Repository ''octo'' ''demo'',
       Log ''repository not found'' [(''owner'', ''octo''), (''repo name'', ''demo'')]])"
  by (simp add: GetRepository_def run_defs absent_def answering_def)

text \<open>
  C5, amended. Whenever a response comes back:
  \<^item> GetRepositoryContent on a 404 logs "file/path not found" and returns no error, with
    the file and the directory listing exactly as the client gave them (go-github gives
    none of either): the not-found outcome;
  \<^item> GetRepositoryContent on any other status that comes with an error returns that
    error, with no file and no listing;
  \<^item> GetRepository returns an error whenever the client gave one, on a 404 too; the 404 is
    told apart only by the log record "repository not found", emitted exactly then.
\<close>

theorem not_found_outcomes:
  "(Repositories_GetContents c owner repoName path ref = (fileContents, dirContents, Some r, err)
      \<and> StatusCode r = 404 \<longrightarrow>
      GetRepositoryContent c owner repoName path ref =
        (Value (fileContents, dirContents, None),
         [Log ''getting repository content''
            [(''repo name'', repoName), (''ref'', ref), (''path'', path)],
          Get_Contents owner repoName path ref,
          Log ''file/path not found''
            [(''repo name'', repoName), (''ref'', ref), (''path'', path)]]))
   \<and> (Repositories_GetContents c owner repoName path ref =
        (fileContents, dirContents, Some r, Some e)
      \<and> StatusCode r \<noteq> 404 \<longrightarrow>
      fst (GetRepositoryContent c owner repoName path ref) = Value (None, [], Some e))
   \<and> (Repositories_Get c owner repoName = (repo, Some r', Some e') \<longrightarrow>
      fst (GetRepository c owner repoName) =
        Value (None, Some (Errorf (''error getting repository '' @ owner @ ''/'' @ repoName) [e']))
      \<and> (Log ''repository not found'' [(''owner'', owner), (''repo name'', repoName)]
            \<in> set (snd (GetRepository c owner repoName))) = (StatusCode r' = 404))"
  by (auto simp add: GetRepository_def GetRepositoryContent_def run_defs split: option.splits)

theorem not_found_outcomes_on_stubs:
  "fst (GetRepositoryContent absent ''octo'' ''demo'' ''docs/guide.md'' ''main'') =
     Value (None, [], None)
   \<and> fst (GetRepositoryContent broken ''octo'' ''demo'' ''docs/guide.md'' ''main'') =
     Value (None, [], Some (Error ''500 Internal Server Error''))
   \<and> fst (GetRepository absent ''octo'' ''demo'') =
     Value (None, Some (Errorf ''error getting repository octo/demo'' [Error ''404 Not Found'']))
   \<and> fst (GetRepository broken ''octo'' ''demo'') =
     Value (None, Some (Errorf ''error getting repository octo/demo''
                          [Error ''500 Internal Server Error'']))"
  using not_found_outcomes
          [where c = absent and owner = "''octo''" and repoName = "''demo''"
             and path = "''docs/guide.md''" and ref = "''main''"
             and fileContents = None and dirContents = "[]"
             and r = "\<lparr>StatusCode = 404\<rparr>" and err = "Some (Error ''404 Not Found'')"
             and repo = None and r' = "\<lparr>StatusCode = 404\<rparr>" and e' = "Error ''404 Not Found''"]
        not_found_outcomes
          [where c = broken and owner = "''octo''" and repoName = "''demo''"
             and path = "''docs/guide.md''" and ref = "''main''"
             and fileContents = None and dirContents = "[]"
             and r = "\<lparr>StatusCode = 500\<rparr>" and e = "Error ''500 Internal Server Error''"
             and repo = None and r' = "\<lparr>StatusCode = 500\<rparr>"
             and e' = "Error ''500 Internal Server Error''"]
  by (simp add: absent_def broken_def answering_def)

subsection \<open>Creating a repository\<close>

text \<open>
  C10. For every organization argument, CreateRepository makes one request, the creation
  with the empty organization (the authenticated user's account) and the fixed request
  body, and what it returns (a value or a panic) is the same for any two organization
  arguments: the argument reaches the log records only.
\<close>

theorem CreateRepository_organization_unused:
  "requests (snd (CreateRepository c organization name)) =
     [Create_Repository '''' (new_repository name)]
   \<and> fst (CreateRepository c organization name) = fst (CreateRepository c organization' name)"
  by (simp add: CreateRepository_def run_defs requests_def split: prod.splits option.splits)

subsection \<open>Creating a branch\<close>

text \<open>What holds of CreateBranch: a ref is created only after the repository lookup and
  the ref lookup both succeeded, it is the one request of that kind, on the same
  repository, named after the new branch, and it carries the SHA pointer of the object
  that the ref lookup gave for the default branch.\<close>

lemma CreateBranch_ref_at_tip:
  assumes "Create_Ref ow rn new \<in> set (snd (CreateBranch c owner repoName branchName))"
  shows "\<exists>repo res defaultBranch ref res' obj.
           Repositories_Get c owner repoName = (Some repo, Some res, None)
           \<and> DefaultBranch repo = Some defaultBranch
           \<and> Git_GetRef c owner repoName (''refs/heads/'' @ defaultBranch) = (Some ref, res', None)
           \<and> Object ref = Some obj
           \<and> ow = owner \<and> rn = repoName
           \<and> new = \<lparr>Ref = Some (''refs/heads/'' @ branchName), Object = Some \<lparr>SHA = SHA obj\<rparr>\<rparr>"
  using assms
  by (auto simp add: CreateBranch_def GetRepository_def run_defs
        split: prod.splits option.splits if_splits)

text \<open>A lookup that answers with an error, and a ref lookup that fails, each end the
  method with an error before any ref is created.\<close>

lemma CreateBranch_lookup_error:
  assumes "Repositories_Get c owner repoName = (repo, Some r, Some e)"
  shows "fst (CreateBranch c owner repoName branchName) =
           Value (None, Some (Errorf (''error getting repository '' @ owner @ ''/'' @ repoName) [e]))
         \<and> requests (snd (CreateBranch c owner repoName branchName)) =
           [Get_Repository owner repoName]"
  using assms
  by (simp add: CreateBranch_def GetRepository_def run_defs requests_def)

lemma CreateBranch_tip_error:
  assumes "Repositories_Get c owner repoName = (Some repo, Some r, None)"
    and "DefaultBranch repo = Some defaultBranch"
    and "Git_GetRef c owner repoName (''refs/heads/'' @ defaultBranch) = (ref, res, Some e)"
  shows "fst (CreateBranch c owner repoName branchName) = Value (None, Some e)
         \<and> requests (snd (CreateBranch c owner repoName branchName)) =
           [Get_Repository owner repoName,
            Get_Ref owner repoName (''refs/heads/'' @ defaultBranch)]"
  using assms
  by (simp add: CreateBranch_def GetRepository_def run_defs requests_def)

text \<open>
  C6. The claim: CreateBranch returns an error, and creates no ref, whenever the default
  branch or its tip commit cannot be resolved. When the repository lookup fails in the
  transport there is no response object, GetRepository panics on the status read of
  line 24, and so does CreateBranch, which called it at line 77: no ref is created, and
  no error is returned either.
\<close>

theorem CreateBranch_lookup_without_response:
  "Repositories_Get c owner repoName = (repo, None, err) \<Longrightarrow>
     CreateBranch c owner repoName branchName =
       (Panic, [Log ''creating branch''
                  [(''owner'', owner), (''repo name'', repoName), (''branch name'', branchName)],
                Log ''get repository'' [(''owner'', owner), (''repo name'', repoName)],
                Get_Repository owner repoName])"
  by (simp add: CreateBranch_def GetRepository_def run_defs)

theorem CreateBranch_offline:
  "fst (CreateBranch offline ''octo'' ''demo'' ''feature/login'') = Panic"
  using CreateBranch_lookup_without_response
          [of offline "''octo''" "''demo''" None "Some (Error ''no route to host'')"
              "''feature/login''"]
  by (simp add: offline_def)

subsection \<open>Writing a file\<close>

text \<open>
  C7, as the claim states it: a write that creates a file carries no prior-content
  identifier. The method cannot tell a creation from an overwrite but by its argument
  \<open>replacingFileSHA\<close>, which a caller with no prior content leaves empty; line 114
  wraps it with \<open>github.Ptr\<close> all the same, so the request carries the SHA field, set
  to the empty string, and not an absent one.
\<close>

theorem CreateOrUpdateFile_new_file_carries_SHA:
  "carried_SHA (snd (CreateOrUpdateFile octo ''octo'' ''demo'' ''main'' ''add notes''
                       ''NOTES.md'' '''' [104, 105])) = [Some '''']
   \<and> carried_SHA (snd (CreateOrUpdateFile octo ''octo'' ''demo'' ''main'' ''add notes''
                       ''NOTES.md'' '''' [104, 105])) \<noteq> [None]"
  by (simp add: CreateOrUpdateFile_def run_defs octo_def)

text \<open>
  C7, amended. Every call of CreateOrUpdateFile makes one write request, and its SHA
  field is always present and holds the caller's \<open>replacingFileSHA\<close> as it is: the empty
  string when the caller names no prior content, the identifier of the file it
  overwrites when the caller gives one.
\<close>

theorem CreateOrUpdateFile_carries_given_SHA:
  "carried_SHA (snd (CreateOrUpdateFile c owner repoName branch commitMessage filePath
                       replacingFileSHA fileContent)) = [Some replacingFileSHA]"
  by (simp add: CreateOrUpdateFile_def run_defs split: prod.splits option.splits)

subsection \<open>Provisioning a secret\<close>

text \<open>What holds of the flow: the sealing is handed the key that the fetch of this call
  gave and the secret's value, and the submission carries the sealed value, the secret's
  name and the key identifier of that same fetch. Neither depends on the error of the
  fetch, which the method does not act on.\<close>

lemma sealing_uses_fetched_key:
  assumes "Seal k v \<in> set (snd (CreateOrUpdateRepositorySecret c enc owner repoName secretName
                                  secretValue))"
  shows "\<exists>key res err. Actions_GetRepoPublicKey c owner repoName = (Some key, res, err)
           \<and> Key key = Some k \<and> v = secretValue"
  using assms
  by (auto simp add: CreateOrUpdateRepositorySecret_def run_defs
        split: prod.splits option.splits if_splits)

lemma submission_carries_fetched_key:
  assumes "Put_RepoSecret ow rn secret
             \<in> set (snd (CreateOrUpdateRepositorySecret c enc owner repoName secretName
                            secretValue))"
  shows "\<exists>key res err k. Actions_GetRepoPublicKey c owner repoName = (Some key, res, err)
           \<and> Key key = Some k \<and> enc k secretValue = (es_EncryptedValue secret, None)
           \<and> KeyID key = Some (es_KeyID secret) \<and> es_Name secret = secretName
           \<and> ow = owner \<and> rn = repoName"
  using assms
  by (auto simp add: CreateOrUpdateRepositorySecret_def run_defs
        split: prod.splits option.splits if_splits)

text \<open>
  C1. The claim: when the key fetch fails, CreateOrUpdateRepositorySecret returns an
  error before any sealing and without the submission. The branch of line 167 logs the
  failure and does not return; go-github gives no key with its error, so line 171 reads
  \<open>*key.Key\<close> through a nil pointer and the method panics: nothing is sealed or
  submitted, and no error is returned.
\<close>

theorem key_fetch_error_not_returned:
  "Actions_GetRepoPublicKey c owner repoName = (None, res, Some e) \<Longrightarrow>
     CreateOrUpdateRepositorySecret c enc owner repoName secretName secretValue =
       (Panic, [Log ''creating or updating repository secret''
                  [(''repo name'', repoName), (''secret name'', secretName)],
                Get_RepoPublicKey owner repoName,
                Log ''error getting repository public key'' [(''repo name'', repoName)]])"
  by (simp add: CreateOrUpdateRepositorySecret_def run_defs)

theorem key_fetch_error_not_returned_keyless:
  "fst (CreateOrUpdateRepositorySecret keyless (sealed_as ''c2VhbGVk'') ''octo'' ''demo''
          ''DEPLOY_TOKEN'' ''s3cr3t'') = Panic"
  using key_fetch_error_not_returned
          [of keyless "''octo''" "''demo''" "Some \<lparr>StatusCode = 403\<rparr>" "Error ''403 Forbidden''"
              "sealed_as ''c2VhbGVk''" "''DEPLOY_TOKEN''" "''s3cr3t''"]
  by (simp add: keyless_def)

text \<open>
  C9. The log records that CreateOrUpdateRepositorySecret emits are, in order, one of the
  six sequences of \<open>secret_logs\<close>: they are made of the repository name, the secret name
  and the steps that failed. The secret's value is handed to the sealing \<open>enc\<close> and to
  nothing else; no log record is built from it.
\<close>

theorem secret_value_not_logged:
  "log_records (snd (CreateOrUpdateRepositorySecret c enc owner repoName secretName
                       secretValue))
     \<in> set (secret_logs repoName secretName)"
  by (simp add: CreateOrUpdateRepositorySecret_def run_defs log_records_def secret_logs_def
        Let_def split: prod.splits option.splits)

subsection \<open>Base64 decodes what it encoded\<close>

lemma index_of_nth: "distinct xs \<Longrightarrow> n < length xs \<Longrightarrow> index_of (xs ! n) xs = Some n"
proof (induction xs arbitrary: n)
  case Nil
  then show ?case by simp
next
  case (Cons y ys)
  show ?case
  proof (cases n)
    case 0
    then show ?thesis by simp
  next
    case (Suc m)
    with Cons.prems have "ys ! m \<noteq> y" by auto
    with Suc Cons show ?thesis by simp
  qed
qed

lemma distinct_alphabet: "distinct alphabet"
  by (simp add: alphabet_def)

lemma length_alphabet: "length alphabet = 64"
  by (simp add: alphabet_def)

lemma b64val_b64char: "n < 64 \<Longrightarrow> b64val (b64char n) = Some n"
  by (simp add: b64val_def b64char_def index_of_nth distinct_alphabet length_alphabet)

lemma pad_not_b64char: "n < 64 \<Longrightarrow> b64char n \<noteq> CHR ''=''"
proof
  assume "n < 64" and "b64char n = CHR ''=''"
  then have "CHR ''='' \<in> set alphabet"
    unfolding b64char_def using nth_mem [of n alphabet] by (simp add: length_alphabet)
  then show False by (simp add: alphabet_def)
qed

lemma sextet_bounds:
  fixes x y z :: nat
  assumes "x < 256" "y < 256" "z < 256"
  shows "x div 4 < 64" "x mod 4 * 16 + y div 16 < 64" "y mod 16 * 4 + z div 64 < 64"
    "z mod 64 < 64" "x mod 4 * 16 < 64" "y mod 16 * 4 < 64"
proof -
  have a: "x mod 4 < 4" "y mod 16 < 16" by simp_all
  have b: "x div 4 < 64" "y div 16 < 16" "z div 64 < 4"
    using assms by (simp_all add: less_mult_imp_div_less)
  show "x div 4 < 64" by (rule b)
  show "x mod 4 * 16 + y div 16 < 64" using a b by linarith
  show "y mod 16 * 4 + z div 64 < 64" using a b by linarith
  show "z mod 64 < 64" by simp
  show "x mod 4 * 16 < 64" using a by linarith
  show "y mod 16 * 4 < 64" using a by linarith
qed

lemma sextet_joins:
  fixes x y z :: nat
  assumes "y < 256" "z < 256"
  shows "x div 4 * 4 + (x mod 4 * 16 + y div 16) div 16 = x"
    "(x mod 4 * 16 + y div 16) mod 16 * 16 + (y mod 16 * 4 + z div 64) div 4 = y"
    "(y mod 16 * 4 + z div 64) mod 4 * 64 + z mod 64 = z"
    "x div 4 * 4 + (x mod 4 * 16) div 16 = x"
    "(x mod 4 * 16 + y div 16) mod 16 * 16 + (y mod 16 * 4) div 4 = y"
proof -
  have b: "y div 16 < 16" "z div 64 < 4"
    using assms by (simp_all add: less_mult_imp_div_less)
  show "x div 4 * 4 + (x mod 4 * 16 + y div 16) div 16 = x"
    using b by simp
  show "(x mod 4 * 16 + y div 16) mod 16 * 16 + (y mod 16 * 4 + z div 64) div 4 = y"
    using b by simp
  show "(y mod 16 * 4 + z div 64) mod 4 * 64 + z mod 64 = z"
    using b by simp
  show "x div 4 * 4 + (x mod 4 * 16) div 16 = x"
    by simp
  show "(x mod 4 * 16 + y div 16) mod 16 * 16 + (y mod 16 * 4) div 4 = y"
    using b by simp
qed

lemma unat_byte: "unat (a :: byte) < 256"
  using unsigned_less [of a] by simp

lemma quantum_b64encode:
  "quantum (b64char (unat a div 4)) (b64char (unat a mod 4 * 16 + unat b div 16))
     (b64char (unat b mod 16 * 4 + unat c div 64)) (b64char (unat c mod 64)) = Some [a, b, c]"
proof -
  note bounds = sextet_bounds [OF unat_byte [of a] unat_byte [of b] unat_byte [of c]]
  note joins = sextet_joins(1-3) [OF unat_byte [of b] unat_byte [of c]]
  show ?thesis
    unfolding quantum_def
    by (simp only: b64val_b64char bounds joins option.case prod.case of_nat_unat ucast_id)
qed

lemma final_quantum_full:
  "final_quantum (b64char (unat a div 4)) (b64char (unat a mod 4 * 16 + unat b div 16))
     (b64char (unat b mod 16 * 4 + unat c div 64)) (b64char (unat c mod 64)) = Some [a, b, c]"
  using sextet_bounds(4) [OF unat_byte [of a] unat_byte [of b] unat_byte [of c]]
  by (simp only: final_quantum_def quantum_b64encode pad_not_b64char if_False)

lemma final_quantum_two:
  "final_quantum (b64char (unat a div 4)) (b64char (unat a mod 4 * 16 + unat b div 16))
     (b64char (unat b mod 16 * 4)) CHR ''='' = Some [a, b]"
proof -
  note bounds = sextet_bounds [OF unat_byte [of a] unat_byte [of b] unat_byte [of b]]
  note joins = sextet_joins(1,5) [OF unat_byte [of b] unat_byte [of b]]
  show ?thesis
    unfolding final_quantum_def
    by (simp only: b64val_b64char bounds joins option.case prod.case of_nat_unat ucast_id
          pad_not_b64char if_True if_False refl)
qed

lemma final_quantum_one:
  "final_quantum (b64char (unat a div 4)) (b64char (unat a mod 4 * 16)) CHR ''='' CHR ''=''
     = Some [a]"
proof -
  note bounds = sextet_bounds [OF unat_byte [of a] unat_byte [of a] unat_byte [of a]]
  note joins = sextet_joins(4) [OF unat_byte [of a] unat_byte [of a]]
  show ?thesis
    unfolding final_quantum_def
    by (simp only: b64val_b64char bounds joins option.case prod.case of_nat_unat ucast_id
          if_True refl)
qed

lemmas final_quantum_b64encode = final_quantum_full final_quantum_two final_quantum_one

lemma b64encode_Nil_iff: "b64encode bs = [] \<longleftrightarrow> bs = []"
  by (induction bs rule: b64encode.induct) simp_all

lemma b64decode_b64encode: "b64decode (b64encode bs) = Some bs"
proof (induction bs rule: b64encode.induct)
  case (1 a b c rest)
  then show ?case
    by (simp add: quantum_b64encode final_quantum_b64encode b64encode_Nil_iff)
next
  case (2 a b)
  then show ?case by (simp add: final_quantum_b64encode)
next
  case (3 a)
  then show ?case by (simp add: final_quantum_b64encode)
next
  case 4
  then show ?case by simp
qed

lemma b64encode_inj: "b64encode xs = b64encode ys \<Longrightarrow> xs = ys"
  by (metis b64decode_b64encode option.inject)

subsection \<open>The shape of a sealed secret\<close>

lemma length_le_bytes: "length (le_bytes n w) = n"
  by (simp add: le_bytes_def)

lemma le_bytes_inj:
  fixes v w :: "'a::len word"
  assumes "le_bytes n v = le_bytes n w" and "LENGTH('a) \<le> 8 * n"
  shows "v = w"
proof (rule bit_word_eqI)
  fix k
  assume k: "k < LENGTH('a)"
  with assms(2) have i: "k div 8 < n" by (simp add: less_mult_imp_div_less mult.commute)
  from assms(1) have "map (\<lambda>i. ucast (drop_bit (8 * i) v) :: byte) [0..<n]
                    = map (\<lambda>i. ucast (drop_bit (8 * i) w)) [0..<n]"
    by (simp add: le_bytes_def)
  with i have eq: "(ucast (drop_bit (8 * (k div 8)) v) :: byte) = ucast (drop_bit (8 * (k div 8)) w)"
    by simp
  have "bit v k = bit (ucast (drop_bit (8 * (k div 8)) v) :: byte) (k mod 8)"
    by (simp add: bit_ucast_iff bit_drop_bit_eq)
  also have "\<dots> = bit (ucast (drop_bit (8 * (k div 8)) w) :: byte) (k mod 8)"
    by (simp only: eq)
  also have "\<dots> = bit w k"
    by (simp add: bit_ucast_iff bit_drop_bit_eq)
  finally show "bit v k = bit w k" .
qed


lemma length_bytes_of: "length (bytes_of str) = length str"
  by (simp add: bytes_of_def)

lemma length_xor_keystream: "length (xor_keystream s k plaintext) = length plaintext"
  by (simp add: xor_keystream_def)

lemma seal_anonymous_Some:
  assumes "seal_anonymous s seed recipient plaintext = Some ciphertext"
  shows "\<exists>k. shared_key s (snd (keypair s seed)) (of_le_bytes recipient) = Some k
           \<and> ciphertext = le_bytes publicKeyBytes (fst (keypair s seed))
                           @ le_bytes tagBytes (tag s k (xor_keystream s k plaintext))
                           @ xor_keystream s k plaintext"
  using assms
  by (auto simp add: seal_anonymous_def Let_def split: prod.splits option.splits)

lemma sealed_secret_Inr:
  assumes "fst (sealed_secret s seed publicKey secretValue) = Inr ciphertext"
  shows "\<exists>recipient. b64decode publicKey = Some recipient
           \<and> length recipient = publicKeyBytes
           \<and> seal_anonymous s seed recipient (bytes_of secretValue) = Some ciphertext"
  using assms
  by (auto simp add: sealed_secret_def split: option.splits if_splits)

lemma encryptSecret_no_error:
  assumes "snd (fst (encryptSecret s seed publicKey secretValue)) = None"
  shows "\<exists>ciphertext. fst (sealed_secret s seed publicKey secretValue) = Inr ciphertext
           \<and> fst (fst (encryptSecret s seed publicKey secretValue)) = b64encode ciphertext"
  using assms
  by (auto simp add: encryptSecret_def split: prod.splits sum.splits)

lemma b64decode_test_key: "b64decode test_key = Some test_key_bytes"
  unfolding test_key_def test_key_bytes_def by code_simp

lemma length_test_key_bytes: "length test_key_bytes = publicKeyBytes"
  by (simp add: test_key_bytes_def publicKeyBytes_def)

lemma toy_shared_key: "shared_key toy (snd (keypair toy seed)) (of_le_bytes test_key_bytes) \<noteq> None"
proof -
  have "(of_le_bytes test_key_bytes :: 256 word) \<noteq> 0"
    unfolding test_key_bytes_def by code_simp
  then show ?thesis by (simp add: toy_def)
qed

lemma toy_no_error: "snd (fst (encryptSecret toy seed test_key secretValue)) = None"
  using toy_shared_key [of seed]
  by (auto simp add: encryptSecret_def sealed_secret_def seal_anonymous_def Let_def
        b64decode_test_key length_test_key_bytes split: prod.splits)

text \<open>
  Sealing twice. Whether two calls of the engine end with different ciphertexts is decided
  by the random source: the model takes the bytes that a call draws as its input
  \<open>seed\<close> and is a function of them, so it can say nothing of how likely two draws
  are to differ. What the layout of the sealed box gives is the step from the keypairs to
  the ciphertexts: two successful sealings whose ephemeral public keys differ differ in
  their first bytes, and so do their base64 texts. That the keys of two calls do differ is
  assumed here, not shown; and two different draws need not give two keys, as the scheme
  \<open>toy\<close> shows on the draws 1 and 1, 0.
\<close>

lemma differing_ephemeral_keys:
  assumes "fst (keypair s seed) \<noteq> fst (keypair s seed')"
    and "snd (fst (encryptSecret s seed publicKey secretValue)) = None"
    and "snd (fst (encryptSecret s seed' publicKey secretValue)) = None"
  shows "fst (fst (encryptSecret s seed publicKey secretValue))
           \<noteq> fst (fst (encryptSecret s seed' publicKey secretValue))"
proof
  assume same: "fst (fst (encryptSecret s seed publicKey secretValue))
                  = fst (fst (encryptSecret s seed' publicKey secretValue))"
  from encryptSecret_no_error [OF assms(2)] obtain c where
    c: "fst (sealed_secret s seed publicKey secretValue) = Inr c"
       "fst (fst (encryptSecret s seed publicKey secretValue)) = b64encode c" by blast
  from encryptSecret_no_error [OF assms(3)] obtain c' where
    c': "fst (sealed_secret s seed' publicKey secretValue) = Inr c'"
        "fst (fst (encryptSecret s seed' publicKey secretValue)) = b64encode c'" by blast
  from same c(2) c'(2) have "c = c'" by (simp add: b64encode_inj)
  moreover from sealed_secret_Inr [OF c(1)] seal_anonymous_Some obtain rest where
    "c = le_bytes publicKeyBytes (fst (keypair s seed)) @ rest" by blast
  moreover from sealed_secret_Inr [OF c'(1)] seal_anonymous_Some obtain rest' where
    "c' = le_bytes publicKeyBytes (fst (keypair s seed')) @ rest'" by blast
  ultimately have "le_bytes publicKeyBytes (fst (keypair s seed))
                     = le_bytes publicKeyBytes (fst (keypair s seed'))"
    by (simp add: length_le_bytes)
  then have "fst (keypair s seed) = fst (keypair s seed')"
    by (rule le_bytes_inj) (simp add: publicKeyBytes_def)
  with assms(1) show False by contradiction
qed

lemma differing_ephemeral_keys_toy:
  "fst (fst (encryptSecret toy [1] test_key ''s3cr3t''))
     \<noteq> fst (fst (encryptSecret toy [2] test_key ''s3cr3t''))"
proof -
  have fresh: "fst (keypair toy [1]) \<noteq> fst (keypair toy [2])"
    by (simp add: toy_def of_le_bytes_def)
  show ?thesis
    by (rule differing_ephemeral_keys [OF fresh toy_no_error toy_no_error])
qed

lemma different_draws_same_ciphertext:
  "encryptSecret toy [1] publicKey secretValue = encryptSecret toy [1, 0] publicKey secretValue"
proof -
  have "keypair toy [1] = keypair toy [1, 0]"
    by (simp add: toy_def of_le_bytes_def)
  then have "seal_anonymous toy [1] recipient plaintext
               = seal_anonymous toy [1, 0] recipient plaintext" for recipient plaintext
    unfolding seal_anonymous_def by (simp only:)
  then have "sealed_secret toy [1] publicKey secretValue
               = sealed_secret toy [1, 0] publicKey secretValue"
    unfolding sealed_secret_def by (simp only:)
  then show ?thesis
    unfolding encryptSecret_def by (simp only:)
qed

text \<open>
  C3. A recipient key that does not decode to the fixed size (it is no base64 text, or it
  decodes to another number of bytes) makes encryptSecret fail with InvalidKeyError
  without any invocation of the sealing primitive; and whatever the input, the primitive
  is only ever handed the decoded key itself, of the full size, never a truncated or
  padded one.
\<close>

theorem wrong_size_key_rejected:
  "(map_option length (b64decode publicKey) \<noteq> Some publicKeyBytes \<longrightarrow>
      encryptSecret s seed publicKey secretValue = (('''', Some InvalidKeyError), []))
   \<and> (\<forall>key plaintext.
        Box_SealAnonymous key plaintext \<in> set (snd (encryptSecret s seed publicKey secretValue))
        \<longrightarrow> b64decode publicKey = Some key \<and> length key = publicKeyBytes)"
  by (auto simp add: encryptSecret_def sealed_secret_def split: option.splits)

theorem wrong_size_key_rejected_toy:
  "encryptSecret toy [1] ''AAEC'' ''s3cr3t'' = (('''', Some InvalidKeyError), [])
   \<and> encryptSecret toy [1] ''AAECA'' ''s3cr3t'' = (('''', Some InvalidKeyError), [])
   \<and> b64decode test_key = Some test_key_bytes \<and> length test_key_bytes = publicKeyBytes"
proof -
  have short: "map_option length (b64decode ''AAEC'') \<noteq> Some publicKeyBytes"
    unfolding publicKeyBytes_def by code_simp
  have malformed: "map_option length (b64decode ''AAECA'') \<noteq> Some publicKeyBytes"
    unfolding publicKeyBytes_def by code_simp
  have called: "Box_SealAnonymous test_key_bytes (bytes_of ''s3cr3t'')
                  \<in> set (snd (encryptSecret toy [1] test_key ''s3cr3t''))"
    using toy_shared_key [of "[1]"]
    by (auto simp add: encryptSecret_def sealed_secret_def seal_anonymous_def Let_def
          b64decode_test_key length_test_key_bytes split: prod.splits)
  from wrong_size_key_rejected [of "''AAEC''" toy "[1]" "''s3cr3t''"] short
  have 1: "encryptSecret toy [1] ''AAEC'' ''s3cr3t'' = (('''', Some InvalidKeyError), [])"
    by blast
  from wrong_size_key_rejected [of "''AAECA''" toy "[1]" "''s3cr3t''"] malformed
  have 2: "encryptSecret toy [1] ''AAECA'' ''s3cr3t'' = (('''', Some InvalidKeyError), [])"
    by blast
  from wrong_size_key_rejected [of test_key toy "[1]" "''s3cr3t''"] called
  have 3: "b64decode test_key = Some test_key_bytes \<and> length test_key_bytes = publicKeyBytes"
    by blast
  from 1 2 3 show ?thesis by blast
qed

text \<open>
  C4. The ciphertext that the engine produces, before the base64 encoding, is as long as
  the plaintext plus the fixed overhead, the ephemeral public key and the
  authentication tag (48 bytes); and it does produce one for every valid key on which
  the primitive reports no error.
\<close>

theorem ciphertext_length:
  "(\<forall>ciphertext. fst (sealed_secret s seed publicKey secretValue) = Inr ciphertext \<longrightarrow>
      length ciphertext = length secretValue + (publicKeyBytes + tagBytes))
   \<and> (b64decode publicKey = Some recipient \<and> length recipient = publicKeyBytes
        \<and> shared_key s (snd (keypair s seed)) (of_le_bytes recipient) \<noteq> None \<longrightarrow>
      (\<exists>ciphertext. fst (sealed_secret s seed publicKey secretValue) = Inr ciphertext
         \<and> fst (encryptSecret s seed publicKey secretValue) = (b64encode ciphertext, None)))"
proof (intro conjI allI impI)
  fix ciphertext
  assume "fst (sealed_secret s seed publicKey secretValue) = Inr ciphertext"
  from sealed_secret_Inr [OF this] seal_anonymous_Some obtain k where
    "ciphertext = le_bytes publicKeyBytes (fst (keypair s seed))
                  @ le_bytes tagBytes (tag s k (xor_keystream s k (bytes_of secretValue)))
                  @ xor_keystream s k (bytes_of secretValue)"
    by blast
  then show "length ciphertext = length secretValue + (publicKeyBytes + tagBytes)"
    by (simp add: length_le_bytes length_bytes_of length_xor_keystream)
next
  assume "b64decode publicKey = Some recipient \<and> length recipient = publicKeyBytes
            \<and> shared_key s (snd (keypair s seed)) (of_le_bytes recipient) \<noteq> None"
  then show "\<exists>ciphertext. fst (sealed_secret s seed publicKey secretValue) = Inr ciphertext
               \<and> fst (encryptSecret s seed publicKey secretValue) = (b64encode ciphertext, None)"
    by (auto simp add: encryptSecret_def sealed_secret_def seal_anonymous_def Let_def
          split: prod.splits)
qed

theorem ciphertext_length_toy:
  "\<exists>ciphertext. fst (sealed_secret toy [1] test_key ''s3cr3t'') = Inr ciphertext
     \<and> fst (encryptSecret toy [1] test_key ''s3cr3t'') = (b64encode ciphertext, None)
     \<and> length ciphertext = 54"
proof -
  note len = ciphertext_length [of toy "[1]" test_key "''s3cr3t''" test_key_bytes]
  from len b64decode_test_key length_test_key_bytes toy_shared_key [of "[1]"]
  obtain ciphertext where
    c: "fst (sealed_secret toy [1] test_key ''s3cr3t'') = Inr ciphertext"
       "fst (encryptSecret toy [1] test_key ''s3cr3t'') = (b64encode ciphertext, None)"
    by blast
  from len c(1) have "length ciphertext = length ''s3cr3t'' + (publicKeyBytes + tagBytes)"
    by blast
  then have "length ciphertext = 54"
    by (simp add: publicKeyBytes_def tagBytes_def)
  with c show ?thesis by blast
qed

end
